theory Spec2Isabelle
  imports Complex_Main
begin

section \<open>Values, exceptions and the log\<close>

text \<open>
  The service computes on float64 numbers. A finite float is modelled by the real number it
  denotes (no rounding, no overflow, one zero); the non-finite results that numpy produces
  from finite operands (division by zero, square root of a negative number) are the
  remaining constructors of \<open>npfloat\<close>. Numbers delivered by the market data, the
  statistics libraries and the solver are finite.
\<close>

datatype npfloat = Fin real | PInf | NInf | NaN

text \<open>A raised Python exception: its class name and \<open>str(e)\<close>.\<close>

datatype exn = Exception (exn_class: string) (exn_msg: string)

definition ZeroDivisionError :: exn where
  "ZeroDivisionError = Exception ''ZeroDivisionError'' ''division by zero''"

definition IndexError :: exn where
  "IndexError = Exception ''IndexError'' ''index out of bounds''"

definition ValueError :: "string \<Rightarrow> exn" where
  "ValueError msg = Exception ''ValueError'' msg"

text \<open>What \<open>logger.info\<close>, \<open>logger.warning\<close> and \<open>logger.error\<close> append.\<close>

datatype log_level = INFO | WARNING | ERROR

type_synonym log = "(log_level \<times> string) list"

text \<open>A computation that may log and may raise: what it logged, and the exception or the
  value. \<open>lbind\<close> runs the next step after a value and stops at an exception.\<close>

type_synonym 'a result = "log \<times> (exn + 'a)"

definition lret :: "'a \<Rightarrow> 'a result" where
  "lret v = ([], Inr v)"

definition lift :: "exn + 'a \<Rightarrow> 'a result" where
  "lift r = ([], r)"

definition lbind :: "'a result \<Rightarrow> ('a \<Rightarrow> 'b result) \<Rightarrow> 'b result" where
  "lbind m f =
     (case m of
        (lg, Inl ex) \<Rightarrow> (lg, Inl ex)
      | (lg, Inr v) \<Rightarrow> (case f v of (lg', r) \<Rightarrow> (lg @ lg', r)))"

text \<open>\<open>except Exception as e: logger.error(f"<prefix>{str(e)}"); raise\<close>.\<close>

definition log_and_reraise :: "string \<Rightarrow> 'a result \<Rightarrow> 'a result" where
  "log_and_reraise prefix m =
     (case m of
        (lg, Inl ex) \<Rightarrow> (lg @ [(ERROR, prefix @ exn_msg ex)], Inl ex)
      | (lg, Inr v) \<Rightarrow> (lg, Inr v))"

subsection \<open>numpy scalars and arrays\<close>

text \<open>True division of numpy float64 scalars: a zero divisor gives inf or nan (with a
  suppressed RuntimeWarning), never an exception.\<close>

fun np_div :: "npfloat \<Rightarrow> npfloat \<Rightarrow> npfloat" where
  "np_div (Fin a) (Fin b) =
     (if b \<noteq> 0 then Fin (a / b) else if 0 < a then PInf else if a < 0 then NInf else NaN)"
| "np_div (Fin a) PInf = Fin 0"
| "np_div (Fin a) NInf = Fin 0"
| "np_div (Fin a) NaN = NaN"
| "np_div PInf (Fin b) = (if b < 0 then NInf else PInf)"
| "np_div NInf (Fin b) = (if b < 0 then PInf else NInf)"
| "np_div PInf PInf = NaN"
| "np_div PInf NInf = NaN"
| "np_div PInf NaN = NaN"
| "np_div NInf PInf = NaN"
| "np_div NInf NInf = NaN"
| "np_div NInf NaN = NaN"
| "np_div NaN b = NaN"

text \<open>The comparison \<open>a < b\<close>: false whenever a nan takes part.\<close>

fun np_less :: "npfloat \<Rightarrow> npfloat \<Rightarrow> bool" where
  "np_less (Fin a) (Fin b) = (a < b)"
| "np_less (Fin a) PInf = True"
| "np_less NInf (Fin b) = True"
| "np_less NInf PInf = True"
| "np_less a b = False"

text \<open>Python's built-in \<open>min(a, b)\<close> and \<open>max(a, b)\<close> on two arguments: the second one
  replaces the first only when it compares strictly smaller (larger).\<close>

definition py_min :: "npfloat \<Rightarrow> npfloat \<Rightarrow> npfloat" where
  "py_min a b = (if np_less b a then b else a)"

definition py_max :: "npfloat \<Rightarrow> npfloat \<Rightarrow> npfloat" where
  "py_max a b = (if np_less a b then b else a)"

text \<open>\<open>int(v)\<close> of a finite float: truncation towards zero.\<close>

definition py_int :: "real \<Rightarrow> int" where
  "py_int v = (if 0 \<le> v then \<lfloor>v\<rfloor> else \<lceil>v\<rceil>)"

text \<open>\<open>np.sqrt\<close> on a float64 scalar: nan below zero.\<close>

definition np_sqrt :: "real \<Rightarrow> npfloat" where
  "np_sqrt v = (if v < 0 then NaN else Fin (sqrt v))"


text \<open>\<open>np.sum(a * b)\<close> and \<open>np.dot(a, b)\<close> of two vectors; \<open>np.dot(M, v)\<close> of a matrix
  (a list of rows) and a vector. The shapes agree wherever the service calls them: the
  mean returns have one entry, and the covariance matrix one row and one column, per column
  of the returns frame, and the solver works on vectors of the length of its start vector.\<close>

definition dot :: "real list \<Rightarrow> real list \<Rightarrow> real" where
  "dot a b = sum_list (map2 (*) a b)"

definition mat_vec :: "real list list \<Rightarrow> real list \<Rightarrow> real list" where
  "mat_vec M v = map (\<lambda>row. dot row v) M"

definition mat_scale :: "real list list \<Rightarrow> real \<Rightarrow> real list list" where
  "mat_scale M c = map (map (\<lambda>m. m * c)) M"


section \<open>Data model (models/portfolio_models.py)\<close>

datatype RiskTolerance = CONSERVATIVE | MODERATE | AGGRESSIVE

datatype OptimizationObjective = MAX_RETURN | MIN_RISK | MAX_SHARPE | EQUAL_WEIGHT

text \<open>\<open>PortfolioConstraint\<close>: \<open>type\<close> is a free string (the source comments
  "max_weight", "min_weight", "sector_limit"), \<open>symbol\<close> and \<open>sector\<close> are optional.\<close>

record PortfolioConstraint =
  c_type :: string
  c_symbol :: "string option"
  c_sector :: "string option"
  c_value :: real

record PortfolioOptimizationRequest =
  req_symbols :: "string list"
  req_risk_tolerance :: RiskTolerance
  req_investment_amount :: real
  req_objective :: OptimizationObjective
  req_constraints :: "PortfolioConstraint list"
  req_rebalance_frequency :: string

record AllocationRecommendation =
  a_symbol :: string
  a_company_name :: string
  recommended_weight :: real
  recommended_shares :: int
  recommended_amount :: real
  a_expected_return :: real
  a_risk_contribution :: npfloat
  a_sector :: string

record RiskMetrics =
  rm_portfolio_volatility :: npfloat
  value_at_risk_95 :: npfloat
  rm_expected_return :: real
  rm_sharpe_ratio :: npfloat
  max_drawdown :: npfloat
  beta :: npfloat

record PortfolioOptimizationResponse =
  r_allocations :: "AllocationRecommendation list"
  r_risk_metrics :: RiskMetrics
  total_investment :: real
  expected_annual_return :: real
  optimization_score :: npfloat
  r_rebalancing_suggestions :: "string list"
  r_diversification_score :: npfloat
  generated_at :: nat

section \<open>External collaborators\<close>

text \<open>A price frame: one column per label, a cell is a price or missing (NaN).\<close>

type_synonym frame = "(string \<times> real option list) list"

text \<open>What \<open>yf.download(...)['Adj Close']\<close> gives: a Series for one ticker, a DataFrame
  otherwise.\<close>

datatype adj_close = Series "real option list" | DataFrame frame

text \<open>The returns frame after \<open>pct_change().dropna()\<close>: column labels and complete rows.\<close>

record returns_frame =
  rf_columns :: "string list"
  rf_rows :: "real list list"

text \<open>A labelled vector (\<open>pd.Series\<close> indexed by symbol), in column order.\<close>

type_synonym series = "(string \<times> real) list"

text \<open>One entry of scipy's constraint list, \<open>{'type': ..., 'fun': ...}\<close>, and the
  \<open>OptimizeResult\<close> fields the service reads.\<close>

record solver_constraint =
  sc_type :: string
  sc_fun :: "real list \<Rightarrow> real"

record OptimizeResult =
  success :: bool
  result_x :: "real list"

text \<open>
  The libraries the optimizer calls (yfinance, pandas, scikit-learn, scipy, the clock) are
  not part of the repository: they are the fields of \<open>env\<close>, and every theorem holds
  for each of them unless it says otherwise. \<open>Inl\<close> is a raised exception.
  The three sample-window metrics (\<open>_calculate_var\<close>, \<open>_calculate_max_drawdown\<close>,
  \<open>_calculate_portfolio_beta\<close>) are pandas/numpy pipelines over the returns frame and the
  weights, each with its own default on failure; they receive nothing else of the request and
  are taken whole as \<open>calculate_var\<close>, \<open>calculate_max_drawdown\<close> and
  \<open>calculate_portfolio_beta\<close>.
\<close>

record env =
  yf_download :: "string list \<Rightarrow> string \<Rightarrow> exn + adj_close"
  fillna :: "string \<Rightarrow> frame \<Rightarrow> exn + frame"
  pct_change_dropna :: "frame \<Rightarrow> exn + returns_frame"
  mean :: "returns_frame \<Rightarrow> series"
  ledoit_wolf :: "returns_frame \<Rightarrow> exn + real list list"
  sample_cov :: "returns_frame \<Rightarrow> exn + real list list"
  minimize :: "(real list \<Rightarrow> npfloat) \<Rightarrow> real list \<Rightarrow> string \<Rightarrow> (real \<times> real) list
                 \<Rightarrow> solver_constraint list \<Rightarrow> nat \<Rightarrow> exn + OptimizeResult"
  ticker_history_close :: "string \<Rightarrow> string \<Rightarrow> exn + real option"
  ticker_info :: "string \<Rightarrow> exn + (string \<rightharpoonup> string)"
  calculate_var :: "returns_frame \<Rightarrow> real list \<Rightarrow> npfloat"
  calculate_max_drawdown :: "returns_frame \<Rightarrow> real list \<Rightarrow> npfloat"
  calculate_portfolio_beta :: "returns_frame \<Rightarrow> real list \<Rightarrow> npfloat"
  utcnow :: nat

section \<open>PortfolioOptimizer (services/portfolio_optimizer.py)\<close>

definition risk_free_rate :: real where
  "risk_free_rate = 2 / 100"

definition trading_days :: real where
  "trading_days = 252"

subsection \<open>\<open>_get_optimization_objective\<close>\<close>

fun get_optimization_objective :: "RiskTolerance \<Rightarrow> OptimizationObjective" where
  "get_optimization_objective CONSERVATIVE = MIN_RISK"
| "get_optimization_objective AGGRESSIVE = MAX_RETURN"
| "get_optimization_objective MODERATE = MAX_SHARPE"

subsection \<open>\<open>_optimize_weights\<close>\<close>

text \<open>\<open>mean_returns.index.get_loc(symbol)\<close> on the column labels (unique: one column
  per downloaded ticker): the position, or \<open>None\<close> for pandas' KeyError.\<close>

fun get_loc :: "string list \<Rightarrow> string \<Rightarrow> nat option" where
  "get_loc [] s = None"
| "get_loc (l # ls) s = (if l = s then Some 0 else map_option Suc (get_loc ls s))"

text \<open>Python truthiness of an \<open>Optional[str]\<close>: neither \<open>None\<close> nor the empty string.\<close>

fun truthy :: "string option \<Rightarrow> bool" where
  "truthy None = False"
| "truthy (Some s) = (s \<noteq> [])"

text \<open>The first entry of \<open>constraints_list\<close>: the weights sum to 1.\<close>

definition sum_to_one :: solver_constraint where
  "sum_to_one = \<lparr>sc_type = ''eq'', sc_fun = (\<lambda>x. sum_list x - 1)\<rparr>"

text \<open>One pass of the loop "Add custom constraints" over the pair
  (\<open>constraints_list\<close>, log). A constraint of any other type, or without a symbol,
  matches neither branch and leaves both unchanged.\<close>

definition add_custom_constraint ::
  "string list \<Rightarrow> solver_constraint list \<times> log \<Rightarrow> PortfolioConstraint
     \<Rightarrow> solver_constraint list \<times> log" where
  "add_custom_constraint index st constraint =
     (let (constraints_list, lg) = st in
      if c_type constraint = ''max_weight'' \<and> truthy (c_symbol constraint) then
        (case get_loc index (the (c_symbol constraint)) of
           Some idx \<Rightarrow>
             (constraints_list @
                [\<lparr>sc_type = ''ineq'', sc_fun = (\<lambda>x. c_value constraint - x ! idx)\<rparr>], lg)
         | None \<Rightarrow>
             (constraints_list,
              lg @ [(WARNING, ''Symbol '' @ the (c_symbol constraint) @ '' not found in portfolio'')]))
      else if c_type constraint = ''min_weight'' \<and> truthy (c_symbol constraint) then
        (case get_loc index (the (c_symbol constraint)) of
           Some idx \<Rightarrow>
             (constraints_list @
                [\<lparr>sc_type = ''ineq'', sc_fun = (\<lambda>x. x ! idx - c_value constraint)\<rparr>], lg)
         | None \<Rightarrow>
             (constraints_list,
              lg @ [(WARNING, ''Symbol '' @ the (c_symbol constraint) @ '' not found in portfolio'')]))
      else (constraints_list, lg))"

text \<open>Lines 152 to 176: the constraint list handed to the solver, and the warnings logged
  while building it.\<close>

definition build_constraints ::
  "string list \<Rightarrow> PortfolioConstraint list \<Rightarrow> solver_constraint list \<times> log" where
  "build_constraints index constraints =
     foldl (add_custom_constraint index) ([sum_to_one], []) constraints"

text \<open>The objective handed to the solver; \<open>None\<close> is the final \<open>else\<close> branch
  (EQUAL_WEIGHT), which returns \<open>x0\<close> without solving.\<close>

fun objective_func ::
  "series \<Rightarrow> real list list \<Rightarrow> OptimizationObjective \<Rightarrow> (real list \<Rightarrow> npfloat) option" where
  "objective_func mean_returns cov_matrix MAX_RETURN =
     Some (\<lambda>x. Fin (- dot x (map snd mean_returns)))"
| "objective_func mean_returns cov_matrix MIN_RISK =
     Some (\<lambda>x. np_sqrt (dot x (mat_vec (mat_scale cov_matrix trading_days) x)))"
| "objective_func mean_returns cov_matrix MAX_SHARPE =
     Some (\<lambda>x. np_div (Fin (- (dot x (map snd mean_returns) - risk_free_rate)))
                  (np_sqrt (dot x (mat_vec (mat_scale cov_matrix trading_days) x))))"
| "objective_func mean_returns cov_matrix EQUAL_WEIGHT = None"

text \<open>\<open>_optimize_weights\<close> returns what it logged and either the weights or the exception
  that left it. \<open>1/n_assets\<close> is evaluated before anything else and raises for an empty
  universe. The \<open>try\<close> around \<open>minimize\<close> catches every exception.\<close>

definition optimize_weights ::
  "env \<Rightarrow> series \<Rightarrow> real list list \<Rightarrow> OptimizationObjective \<Rightarrow> PortfolioConstraint list
     \<Rightarrow> log \<times> (exn + real list)" where
  "optimize_weights e mean_returns cov_matrix objective constraints =
     (let n_assets = length mean_returns in
      if n_assets = 0 then ([], Inl ZeroDivisionError)
      else
        let x0 = replicate n_assets (1 / real n_assets);
            (constraints_list, lg) = build_constraints (map fst mean_returns) constraints;
            bounds = replicate n_assets (0, 1)
        in case objective_func mean_returns cov_matrix objective of
             None \<Rightarrow> (lg, Inr x0)
           | Some f \<Rightarrow>
               (case minimize e f x0 ''SLSQP'' bounds constraints_list 1000 of
                  Inr result \<Rightarrow>
                    if success result then (lg, Inr (result_x result))
                    else (lg @ [(WARNING, ''Optimization failed, using equal weights'')], Inr x0)
                | Inl ex \<Rightarrow>
                    (lg @ [(ERROR, ''Optimization error: '' @ exn_msg ex)], Inr x0)))"

subsection \<open>\<open>_fetch_portfolio_data\<close>\<close>

text \<open>\<open>data.to_frame(symbols[0])\<close> when the download is a Series.\<close>

fun to_frame :: "adj_close \<Rightarrow> string list \<Rightarrow> exn + frame" where
  "to_frame (DataFrame d) symbols = Inr d"
| "to_frame (Series col) [] = Inl IndexError"
| "to_frame (Series col) (s # rest) = Inr [(s, col)]"

text \<open>The download (period "2y"), the Series case, then the two \<open>fillna\<close> calls with the
  method names the source passes; any exception is logged and raised again. Nothing here
  looks at which symbols have data.\<close>

definition fetch_portfolio_data :: "env \<Rightarrow> string list \<Rightarrow> frame result" where
  "fetch_portfolio_data e symbols =
     log_and_reraise ''Failed to fetch portfolio data: ''
       (lbind (lift (yf_download e symbols ''2y'')) (\<lambda>downloaded.
        lbind (lift (to_frame downloaded symbols)) (\<lambda>data.
        lbind (lift (fillna e ''forward'' data)) (\<lambda>data.
        lift (fillna e ''backward'' data)))))"

subsection \<open>\<open>_calculate_covariance_matrix\<close>\<close>

definition calculate_covariance_matrix :: "env \<Rightarrow> returns_frame \<Rightarrow> exn + real list list" where
  "calculate_covariance_matrix e returns =
     (case ledoit_wolf e returns of
        Inr cov_matrix \<Rightarrow> Inr cov_matrix
      | Inl ex \<Rightarrow> sample_cov e returns)"

subsection \<open>\<open>_get_current_prices\<close> and \<open>_get_company_info\<close>\<close>

fun current_prices_loop ::
  "env \<Rightarrow> string list \<Rightarrow> (string \<rightharpoonup> real) \<Rightarrow> exn + (string \<rightharpoonup> real)" where
  "current_prices_loop e [] prices = Inr prices"
| "current_prices_loop e (symbol # rest) prices =
     (case ticker_history_close e symbol ''1d'' of
        Inl ex \<Rightarrow> Inl ex
      | Inr (Some close) \<Rightarrow> current_prices_loop e rest (prices(symbol \<mapsto> close))
      | Inr None \<Rightarrow> current_prices_loop e rest (prices(symbol \<mapsto> 0)))"

definition get_current_prices :: "env \<Rightarrow> string list \<Rightarrow> log \<times> (string \<rightharpoonup> real)" where
  "get_current_prices e symbols =
     (case current_prices_loop e symbols Map.empty of
        Inr prices \<Rightarrow> ([], prices)
      | Inl ex \<Rightarrow>
          ([(ERROR, ''Failed to get current prices: '' @ exn_msg ex)],
           map_of (map (\<lambda>symbol. (symbol, 0)) symbols)))"

record company_info =
  ci_name :: string
  ci_sector :: string

definition get_company_info :: "env \<Rightarrow> string \<Rightarrow> company_info" where
  "get_company_info e symbol =
     (case ticker_info e symbol of
        Inr info \<Rightarrow>
          \<lparr>ci_name = (case info ''longName'' of Some n \<Rightarrow> n | None \<Rightarrow> symbol),
           ci_sector = (case info ''sector'' of Some s \<Rightarrow> s | None \<Rightarrow> ''Unknown'')\<rparr>
      | Inl ex \<Rightarrow> \<lparr>ci_name = symbol, ci_sector = ''Unknown''\<rparr>)"

subsection \<open>\<open>_calculate_risk_contribution\<close>\<close>

text \<open>Reading position \<open>asset_idx\<close> of \<open>np.dot(cov_matrix, weights)\<close> or of
  \<open>weights\<close> beyond the end raises IndexError. The quotient is a numpy division.\<close>

definition calculate_risk_contribution :: "real list \<Rightarrow> real list list \<Rightarrow> nat \<Rightarrow> exn + npfloat" where
  "calculate_risk_contribution weights cov_matrix asset_idx =
     (let portfolio_variance = dot weights (mat_vec cov_matrix weights) in
      if asset_idx < length cov_matrix \<and> asset_idx < length weights then
        (let marginal_contrib = mat_vec cov_matrix weights ! asset_idx in
         Inr (np_div (Fin (weights ! asset_idx * marginal_contrib)) (Fin portfolio_variance)))
      else Inl IndexError)"

subsection \<open>\<open>_generate_rebalancing_suggestions\<close>\<close>

text \<open>\<open>np.max\<close> of an empty array, and \<open>np.min\<close> of an empty selection
  \<open>weights[weights > 0]\<close>, raise ValueError.\<close>

definition generate_rebalancing_suggestions :: "real list \<Rightarrow> RiskTolerance \<Rightarrow> exn + string list" where
  "generate_rebalancing_suggestions weights risk_tolerance =
     (if weights = [] then Inl (ValueError ''zero-size array to reduction operation maximum which has no identity'')
      else
        let max_weight = Max (set weights);
            suggestions1 =
              (if max_weight > 4 / 10
               then [''Consider reducing concentration in top holding to improve diversification'']
               else [])
        in if filter (\<lambda>w. w > 0) weights = []
           then Inl (ValueError ''zero-size array to reduction operation minimum which has no identity'')
           else
             let min_weight = Min (set (filter (\<lambda>w. w > 0) weights));
                 suggestions2 =
                   (if min_weight < 2 / 100
                    then suggestions1 @ [''Consider eliminating positions below 2% to reduce transaction costs'']
                    else suggestions1)
             in Inr (suggestions2 @
                  [case risk_tolerance of
                     CONSERVATIVE \<Rightarrow> ''Consider monthly rebalancing to maintain risk targets''
                   | AGGRESSIVE \<Rightarrow> ''Quarterly rebalancing may be sufficient for growth-focused portfolio''
                   | MODERATE \<Rightarrow> ''Rebalance quarterly or when allocations drift more than 5% from targets'']))"

subsection \<open>\<open>_calculate_diversification_score\<close>\<close>

text \<open>\<open>1.0 / len(weights)\<close> is a Python float division and raises for an empty vector;
  the normalising quotient has a numpy float64 numerator, so a zero denominator (one asset)
  gives inf or nan, which the built-in \<open>min\<close> and \<open>max\<close> then compare.\<close>

definition calculate_diversification_score :: "real list \<Rightarrow> exn + npfloat" where
  "calculate_diversification_score weights =
     (let hhi = sum_list (map (\<lambda>w. w ^ 2) weights);
          max_hhi = 1
      in if length weights = 0 then Inl (Exception ''ZeroDivisionError'' ''float division by zero'')
         else
           let min_hhi = 1 / real (length weights);
               diversification_score = np_div (Fin (max_hhi - hhi)) (Fin (max_hhi - min_hhi))
           in Inr (py_max (Fin 0) (py_min (Fin 1) diversification_score)))"

subsection \<open>\<open>optimize\<close>\<close>

text \<open>One pass of the allocation loop, for position \<open>i\<close> and its symbol.
  \<open>optimal_weights[i]\<close>, \<open>mean_returns[i]\<close> and the risk contribution read position
  \<open>i\<close>; beyond the end each raises IndexError.\<close>

definition allocation ::
  "env \<Rightarrow> real \<Rightarrow> real list \<Rightarrow> series \<Rightarrow> real list list \<Rightarrow> (string \<rightharpoonup> real)
     \<Rightarrow> nat \<times> string \<Rightarrow> exn + AllocationRecommendation" where
  "allocation e investment_amount optimal_weights mean_returns cov_matrix current_prices p =
     (let (i, symbol) = p in
      if i < length optimal_weights \<and> i < length mean_returns then
        (let weight = optimal_weights ! i;
             allocation_amount = investment_amount * weight;
             current_price = (case current_prices symbol of Some q \<Rightarrow> q | None \<Rightarrow> 0);
             shares = (if current_price > 0 then py_int (allocation_amount / current_price) else 0);
             info = get_company_info e symbol
         in case calculate_risk_contribution optimal_weights cov_matrix i of
              Inl ex \<Rightarrow> Inl ex
            | Inr rc \<Rightarrow>
                Inr \<lparr>a_symbol = symbol,
                     a_company_name = ci_name info,
                     recommended_weight = weight,
                     recommended_shares = shares,
                     recommended_amount = allocation_amount,
                     a_expected_return = snd (mean_returns ! i),
                     a_risk_contribution = rc,
                     a_sector = ci_sector info\<rparr>)
      else Inl IndexError)"

fun allocations_loop ::
  "(nat \<times> string \<Rightarrow> exn + AllocationRecommendation) \<Rightarrow> (nat \<times> string) list
     \<Rightarrow> AllocationRecommendation list \<Rightarrow> exn + AllocationRecommendation list" where
  "allocations_loop f [] allocations = Inr allocations"
| "allocations_loop f (p # ps) allocations =
     (case f p of
        Inl ex \<Rightarrow> Inl ex
      | Inr a \<Rightarrow> allocations_loop f ps (allocations @ [a]))"

text \<open>\<open>optimize\<close> takes the symbols, the risk tolerance, the amount and the optional
  constraints, and nothing else of the request. Every exception is logged and raised again.\<close>

definition optimize ::
  "env \<Rightarrow> string list \<Rightarrow> RiskTolerance \<Rightarrow> real \<Rightarrow> PortfolioConstraint list option
     \<Rightarrow> PortfolioOptimizationResponse result" where
  "optimize e symbols risk_tolerance investment_amount constraints =
     log_and_reraise ''Portfolio optimization failed: ''
       (lbind (fetch_portfolio_data e symbols) (\<lambda>data.
        lbind (lift (pct_change_dropna e data)) (\<lambda>returns.
        let mean_returns = map (\<lambda>(label, m). (label, m * trading_days)) (mean e returns) in
        lbind (lift (calculate_covariance_matrix e returns)) (\<lambda>cov_matrix.
        let objective = get_optimization_objective risk_tolerance in
        lbind (optimize_weights e mean_returns cov_matrix objective
                 (case constraints of None \<Rightarrow> [] | Some cs \<Rightarrow> cs)) (\<lambda>optimal_weights.
        let portfolio_return = dot optimal_weights (map snd mean_returns);
            portfolio_volatility =
              np_sqrt (dot optimal_weights
                         (mat_vec (mat_scale cov_matrix trading_days) optimal_weights));
            sharpe_ratio = np_div (Fin (portfolio_return - risk_free_rate)) portfolio_volatility
        in
        lbind (case get_current_prices e symbols of (lg, prices) \<Rightarrow> (lg, Inr prices))
          (\<lambda>current_prices.
        lbind (lift (allocations_loop
                       (allocation e investment_amount optimal_weights mean_returns cov_matrix
                          current_prices)
                       (enumerate 0 symbols) [])) (\<lambda>allocations.
        let risk_metrics =
              \<lparr>rm_portfolio_volatility = portfolio_volatility,
               value_at_risk_95 = calculate_var e returns optimal_weights,
               rm_expected_return = portfolio_return,
               rm_sharpe_ratio = sharpe_ratio,
               max_drawdown = calculate_max_drawdown e returns optimal_weights,
               beta = calculate_portfolio_beta e returns optimal_weights\<rparr>
        in
        lbind (lift (generate_rebalancing_suggestions optimal_weights risk_tolerance))
          (\<lambda>rebalancing_suggestions.
        lbind (lift (calculate_diversification_score optimal_weights))
          (\<lambda>diversification_score.
        lret \<lparr>r_allocations = allocations,
              r_risk_metrics = risk_metrics,
              total_investment = investment_amount,
              expected_annual_return = portfolio_return,
              optimization_score = sharpe_ratio,
              r_rebalancing_suggestions = rebalancing_suggestions,
              r_diversification_score = diversification_score,
              generated_at = utcnow e\<rparr>)))))))))"

section \<open>The endpoint (main.py)\<close>

record HTTPException =
  status_code :: nat
  detail :: string

text \<open>\<open>optimize_portfolio\<close> passes four fields of the request to the optimizer; an
  exception becomes the 500 response. The log line names the authenticated user.\<close>

definition optimize_portfolio ::
  "env \<Rightarrow> PortfolioOptimizationRequest \<Rightarrow> (string \<rightharpoonup> string)
     \<Rightarrow> log \<times> (HTTPException + PortfolioOptimizationResponse)" where
  "optimize_portfolio e request current_user =
     (let lg0 = [(INFO, ''Portfolio optimization request by user '' @
                   (case current_user ''user_id'' of Some u \<Rightarrow> u | None \<Rightarrow> ''None''))]
      in case optimize e (req_symbols request) (req_risk_tolerance request)
                (req_investment_amount request) (Some (req_constraints request)) of
           (lg, Inr optimization) \<Rightarrow> (lg0 @ lg, Inr optimization)
         | (lg, Inl ex) \<Rightarrow>
             (lg0 @ lg @ [(ERROR, ''Portfolio optimization failed: '' @ exn_msg ex)],
              Inl \<lparr>status_code = 500,
                   detail = ''Portfolio optimization failed: '' @ exn_msg ex\<rparr>))"

section \<open>Notions used by the properties\<close>

text \<open>The invariant of a weight vector: the sum is within 1e-4 of 1 and every weight lies in
  [0, 1].\<close>

definition weights_valid :: "real list \<Rightarrow> bool" where
  "weights_valid w = (\<bar>sum_list w - 1\<bar> \<le> 1 / 10000 \<and> list_all (\<lambda>x. 0 \<le> x \<and> x \<le> 1) w)"

definition equal_weights :: "nat \<Rightarrow> real list" where
  "equal_weights n = replicate n (1 / real n)"

text \<open>The call of \<open>minimize\<close> that \<open>_optimize_weights\<close> makes for a non-empty universe, with
  its outcome; \<open>None\<close> when the objective is EQUAL_WEIGHT and the function returns before
  the \<open>try\<close>.\<close>

definition solver_call ::
  "env \<Rightarrow> series \<Rightarrow> real list list \<Rightarrow> OptimizationObjective \<Rightarrow> PortfolioConstraint list
     \<Rightarrow> (exn + OptimizeResult) option" where
  "solver_call e mean_returns cov_matrix objective constraints =
     map_option
       (\<lambda>f. minimize e f (equal_weights (length mean_returns)) ''SLSQP''
              (replicate (length mean_returns) (0, 1))
              (fst (build_constraints (map fst mean_returns) constraints)) 1000)
       (objective_func mean_returns cov_matrix objective)"

text \<open>The line that a fallback writes to the log.\<close>

fun fallback_entry :: "exn + OptimizeResult \<Rightarrow> log_level \<times> string" where
  "fallback_entry (Inl ex) = (ERROR, ''Optimization error: '' @ exn_msg ex)"
| "fallback_entry (Inr result) = (WARNING, ''Optimization failed, using equal weights'')"

text \<open>A weight constraint that names a symbol (a non-empty string), and whether that symbol is
  a label of the universe.\<close>

definition weight_constraint :: "PortfolioConstraint \<Rightarrow> bool" where
  "weight_constraint c =
     ((c_type c = ''max_weight'' \<or> c_type c = ''min_weight'') \<and> truthy (c_symbol c))"

definition in_universe :: "string list \<Rightarrow> PortfolioConstraint \<Rightarrow> bool" where
  "in_universe index c = (the (c_symbol c) \<in> set index)"

text \<open>The constraint set in the words of the specification, evaluated at a weight vector
  \<open>x\<close>: the kind of each entry and the value that must be zero (eq) or non-negative (ineq).
  First \<open>\<Sigma>x - 1\<close>; then, in order, \<open>value - x[i]\<close> for a MaxWeight and
  \<open>x[i] - value\<close> for a MinWeight on a symbol of the universe at position \<open>i\<close>.\<close>

definition weight_inequality :: "string list \<Rightarrow> real list \<Rightarrow> PortfolioConstraint \<Rightarrow> string \<times> real" where
  "weight_inequality index x c =
     (''ineq'',
      if c_type c = ''max_weight''
      then c_value c - x ! the (get_loc index (the (c_symbol c)))
      else x ! the (get_loc index (the (c_symbol c))) - c_value c)"

definition solver_ready :: "string list \<Rightarrow> PortfolioConstraint list \<Rightarrow> real list \<Rightarrow> (string \<times> real) list" where
  "solver_ready index constraints x =
     (''eq'', sum_list x - 1) #
     map (weight_inequality index x)
       (filter (\<lambda>c. weight_constraint c \<and> in_universe index c) constraints)"

text \<open>The inequality that the loop appends for a weight constraint on a symbol of the universe,
  and the warning that it logs for one on a symbol outside it.\<close>

definition built :: "string list \<Rightarrow> PortfolioConstraint \<Rightarrow> solver_constraint" where
  "built index c =
     (if c_type c = ''max_weight''
      then \<lparr>sc_type = ''ineq'', sc_fun = (\<lambda>x. c_value c - x ! the (get_loc index (the (c_symbol c))))\<rparr>
      else \<lparr>sc_type = ''ineq'', sc_fun = (\<lambda>x. x ! the (get_loc index (the (c_symbol c))) - c_value c)\<rparr>)"

definition warning :: "PortfolioConstraint \<Rightarrow> log_level \<times> string" where
  "warning c = (WARNING, ''Symbol '' @ the (c_symbol c) @ '' not found in portfolio'')"

text \<open>The Herfindahl index and the clamp of the diversification score.\<close>

definition hhi :: "real list \<Rightarrow> real" where
  "hhi w = (\<Sum>x\<leftarrow>w. x ^ 2)"


section \<open>A sample market\<close>

text \<open>
  Modelled from the spec: \<open>DataFrame.fillna\<close> is pandas code, not part of the repository.
  The data model says that missing entries are "forward/backward filled before
  differencing": forward filling copies the last price seen above into a gap, backward
  filling the next price below; a gap with no price on that side stays. These are the
  meanings given here to the method names "forward" and "backward" that the source passes.
\<close>

fun ffill_from :: "real option \<Rightarrow> real option list \<Rightarrow> real option list" where
  "ffill_from seen [] = []"
| "ffill_from seen (None # cells) = seen # ffill_from seen cells"
| "ffill_from seen (Some v # cells) = Some v # ffill_from (Some v) cells"

definition ffill :: "real option list \<Rightarrow> real option list" where
  "ffill col = ffill_from None col"

definition bfill :: "real option list \<Rightarrow> real option list" where
  "bfill col = rev (ffill_from None (rev col))"

definition spec_fillna :: "string \<Rightarrow> frame \<Rightarrow> exn + frame" where
  "spec_fillna method data =
     (if method = ''forward'' then Inr (map (\<lambda>(label, col). (label, ffill col)) data)
      else if method = ''backward'' then Inr (map (\<lambda>(label, col). (label, bfill col)) data)
      else Inl (ValueError ''Invalid fill method''))"

text \<open>Two symbols over three trading days. AAA trades at 10 throughout; BBB has a single
  price, on the last day, hence no return history of its own. After filling, both columns are
  constant, so every daily return, every mean and every covariance is 0. The solver does not
  converge.\<close>

definition flat_prices :: frame where
  "flat_prices = [(''AAA'', [Some 10, Some 10, Some 10]), (''BBB'', [None, None, Some 5])]"

definition not_converged :: "exn + OptimizeResult" where
  "not_converged = Inr \<lparr>success = False, result_x = [1/2, 1/2]\<rparr>"

definition flat_market :: env where
  "flat_market =
     \<lparr>yf_download = (\<lambda>symbols period. Inr (DataFrame flat_prices)),
      fillna = spec_fillna,
      pct_change_dropna = (\<lambda>data. Inr \<lparr>rf_columns = map fst data, rf_rows = [[0, 0], [0, 0]]\<rparr>),
      mean = (\<lambda>returns. map (\<lambda>label. (label, 0)) (rf_columns returns)),
      ledoit_wolf = (\<lambda>returns. Inr [[0, 0], [0, 0]]),
      sample_cov = (\<lambda>returns. Inr [[0, 0], [0, 0]]),
      minimize = (\<lambda>f x0 method bounds constraints maxiter. not_converged),
      ticker_history_close = (\<lambda>symbol period. Inr (Some (if symbol = ''AAA'' then 10 else 5))),
      ticker_info = (\<lambda>symbol. Inr Map.empty),
      calculate_var = (\<lambda>returns weights. Fin 0),
      calculate_max_drawdown = (\<lambda>returns weights. Fin 0),
      calculate_portfolio_beta = (\<lambda>returns weights. Fin 1),
      utcnow = 0\<rparr>"


text \<open>The same market with statistics libraries that answer with the daily means
  \<open>means\<close> and the covariance \<open>cov\<close>, and a solver whose every call ends in
  \<open>outcome\<close>.\<close>

definition market :: "real list \<Rightarrow> real list list \<Rightarrow> exn + OptimizeResult \<Rightarrow> env" where
  "market means cov outcome =
     flat_market
       \<lparr>mean := (\<lambda>returns. zip (rf_columns returns) means),
        ledoit_wolf := (\<lambda>returns. Inr cov),
        sample_cov := (\<lambda>returns. Inr cov),
        minimize := (\<lambda>f x0 method bounds constraints maxiter. outcome)\<rparr>"

text \<open>A market with a mean annual return of 10 percent for both symbols, an annualised
  covariance of 4 throughout, and a solver that converges to the weights 1/4 and 3/4.\<close>

definition steady_market :: env where
  "steady_market =
     market [1 / 2520, 1 / 2520] [[1 / 63, 1 / 63], [1 / 63, 1 / 63]]
       (Inr \<lparr>success = True, result_x = [1 / 4, 3 / 4]\<rparr>)"

definition steady_allocations :: "AllocationRecommendation list" where
  "steady_allocations =
     [\<lparr>a_symbol = ''AAA'', a_company_name = ''AAA'', recommended_weight = 1 / 4,
       recommended_shares = 25, recommended_amount = 250, a_expected_return = 1 / 10,
       a_risk_contribution = Fin (1 / 4), a_sector = ''Unknown''\<rparr>,
      \<lparr>a_symbol = ''BBB'', a_company_name = ''BBB'', recommended_weight = 3 / 4,
       recommended_shares = 150, recommended_amount = 750, a_expected_return = 1 / 10,
       a_risk_contribution = Fin (3 / 4), a_sector = ''Unknown''\<rparr>]"

definition steady_response :: PortfolioOptimizationResponse where
  "steady_response =
     \<lparr>r_allocations = steady_allocations,
      r_risk_metrics =
        \<lparr>rm_portfolio_volatility = Fin 2, value_at_risk_95 = Fin 0, rm_expected_return = 1 / 10,
         rm_sharpe_ratio = Fin (1 / 25), max_drawdown = Fin 0, beta = Fin 1\<rparr>,
      total_investment = 1000, expected_annual_return = 1 / 10, optimization_score = Fin (1 / 25),
      r_rebalancing_suggestions =
        [''Consider reducing concentration in top holding to improve diversification'',
         ''Rebalance quarterly or when allocations drift more than 5% from targets''],
      r_diversification_score = Fin (3 / 4), generated_at = 0\<rparr>"


definition sample_request :: "OptimizationObjective \<Rightarrow> PortfolioOptimizationRequest" where
  "sample_request objective =
     \<lparr>req_symbols = [''AAA'', ''BBB''], req_risk_tolerance = MODERATE,
      req_investment_amount = 1000, req_objective = objective, req_constraints = [],
      req_rebalance_frequency = ''monthly''\<rparr>"

definition two_assets :: series where
  "two_assets = [(''AAA'', 1 / 10), (''BBB'', 2 / 10)]"

definition unit_cov :: "real list list" where
  "unit_cov = [[1, 0], [0, 1]]"

definition SectorLimit :: PortfolioConstraint where
  "SectorLimit =
     \<lparr>c_type = ''sector_limit'', c_symbol = None, c_sector = Some ''Technology'', c_value = 1 / 2\<rparr>"

definition MaxWeight :: "string \<Rightarrow> real \<Rightarrow> PortfolioConstraint" where
  "MaxWeight s v = \<lparr>c_type = ''max_weight'', c_symbol = Some s, c_sector = None, c_value = v\<rparr>"

definition MinWeight :: "string \<Rightarrow> real \<Rightarrow> PortfolioConstraint" where
  "MinWeight s v = \<lparr>c_type = ''min_weight'', c_symbol = Some s, c_sector = None, c_value = v\<rparr>"

section \<open>The constraint loop and the solve\<close>

lemma get_loc_None: "get_loc index s = None \<longleftrightarrow> s \<notin> set index"
  by (induction index) auto

lemma get_loc_Some: "get_loc index s = Some i \<Longrightarrow> i < length index \<and> index ! i = s"
  by (induction index arbitrary: i) (auto split: if_splits)

lemma add_custom_constraint_cases:
  "add_custom_constraint index (acc, lg) c =
     (if weight_constraint c then
        if in_universe index c then (acc @ [built index c], lg) else (acc, lg @ [warning c])
      else (acc, lg))"
proof (cases "get_loc index (the (c_symbol c))")
  case None
  then have "the (c_symbol c) \<notin> set index" by (simp add: get_loc_None)
  with None show ?thesis
    by (simp add: add_custom_constraint_def weight_constraint_def in_universe_def warning_def)
next
  case (Some i)
  then have "the (c_symbol c) \<in> set index" using get_loc_None[of index "the (c_symbol c)"] by auto
  with Some show ?thesis
    by (auto simp add: add_custom_constraint_def weight_constraint_def in_universe_def built_def)
qed

lemma constraint_loop:
  "foldl (add_custom_constraint index) (acc, lg) cs =
     (acc @ map (built index) (filter (\<lambda>c. weight_constraint c \<and> in_universe index c) cs),
      lg @ map warning (filter (\<lambda>c. weight_constraint c \<and> \<not> in_universe index c) cs))"
  by (induction cs arbitrary: acc lg) (simp_all add: add_custom_constraint_cases)

lemma build_constraints_eq:
  "build_constraints index cs =
     (sum_to_one # map (built index) (filter (\<lambda>c. weight_constraint c \<and> in_universe index c) cs),
      map warning (filter (\<lambda>c. weight_constraint c \<and> \<not> in_universe index c) cs))"
  by (simp add: build_constraints_def constraint_loop)

lemma built_eval:
  "(sc_type (built index c), sc_fun (built index c) x) = weight_inequality index x c"
  by (simp add: built_def weight_inequality_def)

lemma optimize_weights_equal:
  assumes "mean_returns \<noteq> []"
  shows "optimize_weights e mean_returns cov_matrix EQUAL_WEIGHT constraints =
           (snd (build_constraints (map fst mean_returns) constraints),
            Inr (equal_weights (length mean_returns)))"
  using assms by (simp add: optimize_weights_def equal_weights_def Let_def split: prod.splits)

lemma optimize_weights_no_call:
  assumes "mean_returns \<noteq> []"
    and "solver_call e mean_returns cov_matrix objective constraints = None"
  shows "optimize_weights e mean_returns cov_matrix objective constraints =
           (snd (build_constraints (map fst mean_returns) constraints),
            Inr (equal_weights (length mean_returns)))"
  using assms
  by (auto simp add: optimize_weights_def solver_call_def equal_weights_def Let_def
      split: prod.splits option.splits)

lemma optimize_weights_solve:
  assumes "mean_returns \<noteq> []"
    and "solver_call e mean_returns cov_matrix objective constraints = Some outcome"
  shows "optimize_weights e mean_returns cov_matrix objective constraints =
           (case outcome of
              Inr result \<Rightarrow>
                if success result
                then (snd (build_constraints (map fst mean_returns) constraints), Inr (result_x result))
                else (snd (build_constraints (map fst mean_returns) constraints) @ [fallback_entry outcome],
                      Inr (equal_weights (length mean_returns)))
            | Inl ex \<Rightarrow>
                (snd (build_constraints (map fst mean_returns) constraints) @ [fallback_entry outcome],
                 Inr (equal_weights (length mean_returns))))"
  using assms
  by (auto simp add: optimize_weights_def solver_call_def equal_weights_def Let_def
      split: prod.splits option.splits sum.splits)

lemma sum_list_replicate_real: "sum_list (replicate n (c::real)) = real n * c"
  by (induction n) (simp_all add: algebra_simps)

lemma equal_weights_valid: "0 < n \<Longrightarrow> weights_valid (equal_weights n)"
  by (simp add: weights_valid_def equal_weights_def sum_list_replicate_real list_all_iff)


section \<open>The stages of \<open>optimize\<close>\<close>

lemma optimize_stages:
  assumes "fetch_portfolio_data e symbols = (lg1, Inr data)"
    and "pct_change_dropna e data = Inr returns"
    and "mean_returns = map (\<lambda>(label, m). (label, m * trading_days)) (mean e returns)"
    and "calculate_covariance_matrix e returns = Inr cov_matrix"
    and "optimize_weights e mean_returns cov_matrix (get_optimization_objective risk_tolerance)
           (case constraints of None \<Rightarrow> [] | Some cs \<Rightarrow> cs) = (lg2, Inr w)"
    and "get_current_prices e symbols = (lg3, prices)"
    and "allocations_loop (allocation e investment_amount w mean_returns cov_matrix prices)
           (enumerate 0 symbols) [] = Inr allocations"
    and "generate_rebalancing_suggestions w risk_tolerance = Inr suggestions"
    and "calculate_diversification_score w = Inr score"
  shows "optimize e symbols risk_tolerance investment_amount constraints =
           (lg1 @ lg2 @ lg3,
            Inr \<lparr>r_allocations = allocations,
                 r_risk_metrics =
                   \<lparr>rm_portfolio_volatility =
                      np_sqrt (dot w (mat_vec (mat_scale cov_matrix trading_days) w)),
                    value_at_risk_95 = calculate_var e returns w,
                    rm_expected_return = dot w (map snd mean_returns),
                    rm_sharpe_ratio =
                      np_div (Fin (dot w (map snd mean_returns) - risk_free_rate))
                        (np_sqrt (dot w (mat_vec (mat_scale cov_matrix trading_days) w))),
                    max_drawdown = calculate_max_drawdown e returns w,
                    beta = calculate_portfolio_beta e returns w\<rparr>,
                 total_investment = investment_amount,
                 expected_annual_return = dot w (map snd mean_returns),
                 optimization_score =
                   np_div (Fin (dot w (map snd mean_returns) - risk_free_rate))
                     (np_sqrt (dot w (mat_vec (mat_scale cov_matrix trading_days) w))),
                 r_rebalancing_suggestions = suggestions,
                 r_diversification_score = score,
                 generated_at = utcnow e\<rparr>)"
  using assms(5-9) unfolding assms(3) optimize_def
  by (simp add: assms(1,2,4) lbind_def lift_def lret_def log_and_reraise_def Let_def)








section \<open>The sample markets, evaluated\<close>














lemma steady_market_sel:
  "yf_download steady_market symbols period = Inr (DataFrame flat_prices)"
  "fillna steady_market = spec_fillna"
  "pct_change_dropna steady_market d = Inr \<lparr>rf_columns = map fst d, rf_rows = [[0, 0], [0, 0]]\<rparr>"
  "mean steady_market r = zip (rf_columns r) [1 / 2520, 1 / 2520]"
  "ledoit_wolf steady_market r = Inr [[1 / 63, 1 / 63], [1 / 63, 1 / 63]]"
  "minimize steady_market f x0 m b cl it = Inr \<lparr>success = True, result_x = [1 / 4, 3 / 4]\<rparr>"
  "ticker_history_close steady_market s p = Inr (Some (if s = ''AAA'' then 10 else 5))"
  "ticker_info steady_market s = Inr Map.empty"
  "calculate_var steady_market r w = Fin 0"
  "calculate_max_drawdown steady_market r w = Fin 0"
  "calculate_portfolio_beta steady_market r w = Fin 1"
  "utcnow steady_market = 0"
  by (simp_all add: steady_market_def market_def flat_market_def)

lemma steady_fetch:
  "fetch_portfolio_data steady_market [''AAA'', ''BBB''] =
     ([], Inr [(''AAA'', [Some 10, Some 10, Some 10]), (''BBB'', [Some 5, Some 5, Some 5])])"
  by (simp add: fetch_portfolio_data_def steady_market_sel flat_prices_def lbind_def lift_def
      log_and_reraise_def spec_fillna_def ffill_def bfill_def)

lemma steady_weights:
  "optimize_weights steady_market [(''AAA'', 1 / 10), (''BBB'', 1 / 10)]
     [[1 / 63, 1 / 63], [1 / 63, 1 / 63]] objective [] =
     ([], Inr (if objective = EQUAL_WEIGHT then [1 / 2, 1 / 2] else [1 / 4, 3 / 4]))"
  by (cases objective)
     (simp_all add: optimize_weights_def steady_market_sel build_constraints_def numeral_2_eq_2)

lemma steady_prices_now:
  "get_current_prices steady_market [''AAA'', ''BBB''] = ([], [''AAA'' \<mapsto> 10, ''BBB'' \<mapsto> 5])"
  by (simp add: get_current_prices_def steady_market_sel)

lemma steady_risk:
  "calculate_risk_contribution [1 / 4, 3 / 4] [[1 / 63, 1 / 63], [1 / 63, 1 / 63]] 0 = Inr (Fin (1 / 4))"
  "calculate_risk_contribution [1 / 4, 3 / 4] [[1 / 63, 1 / 63], [1 / 63, 1 / 63]] (Suc 0) = Inr (Fin (3 / 4))"
  by (simp_all add: calculate_risk_contribution_def dot_def mat_vec_def)

lemma steady_allocations_loop:
  "allocations_loop
     (allocation steady_market 1000 [1 / 4, 3 / 4] [(''AAA'', 1 / 10), (''BBB'', 1 / 10)]
        [[1 / 63, 1 / 63], [1 / 63, 1 / 63]] [''AAA'' \<mapsto> 10, ''BBB'' \<mapsto> 5])
     (enumerate 0 [''AAA'', ''BBB'']) [] = Inr steady_allocations"
  by (simp add: allocation_def steady_risk get_company_info_def steady_market_sel py_int_def
      steady_allocations_def Let_def)

lemma steady_suggestions:
  "generate_rebalancing_suggestions [1 / 4, 3 / 4] risk_tolerance =
     Inr [''Consider reducing concentration in top holding to improve diversification'',
          case risk_tolerance of
            CONSERVATIVE \<Rightarrow> ''Consider monthly rebalancing to maintain risk targets''
          | AGGRESSIVE \<Rightarrow> ''Quarterly rebalancing may be sufficient for growth-focused portfolio''
          | MODERATE \<Rightarrow> ''Rebalance quarterly or when allocations drift more than 5% from targets'']"
  by (simp add: generate_rebalancing_suggestions_def)

lemma steady_score: "calculate_diversification_score [1 / 4, 3 / 4] = Inr (Fin (3 / 4))"
  by (simp add: calculate_diversification_score_def py_min_def py_max_def power2_eq_square)

lemma steady_return: "dot [1 / 4, 3 / 4] [1 / 10, 1 / 10] = 1 / 10"
  by (simp add: dot_def)

lemma steady_volatility:
  "np_sqrt (dot [1 / 4, 3 / 4]
     (mat_vec (mat_scale [[1 / 63, 1 / 63], [1 / 63, 1 / 63]] trading_days) [1 / 4, 3 / 4])) = Fin 2"
  by (simp add: np_sqrt_def dot_def mat_vec_def mat_scale_def trading_days_def)

lemma steady_optimize:
  "optimize steady_market [''AAA'', ''BBB''] MODERATE 1000 (Some []) = ([], Inr steady_response)"
proof -
  let ?returns = "\<lparr>rf_columns = [''AAA'', ''BBB''], rf_rows = [[0, 0], [0, 0]]\<rparr>"
  have s2: "pct_change_dropna steady_market
              [(''AAA'', [Some 10, Some 10, Some 10]), (''BBB'', [Some 5, Some 5, Some 5])] =
            Inr ?returns"
    by (simp add: steady_market_sel)
  have s3: "[(''AAA'', 1 / 10), (''BBB'', 1 / 10)] =
            map (\<lambda>(label, m). (label, m * trading_days)) (mean steady_market ?returns)"
    by (simp add: steady_market_sel trading_days_def)
  have s4: "calculate_covariance_matrix steady_market ?returns =
              Inr [[1 / 63, 1 / 63], [1 / 63, 1 / 63]]"
    by (simp add: calculate_covariance_matrix_def steady_market_sel)
  have s5: "optimize_weights steady_market [(''AAA'', 1 / 10), (''BBB'', 1 / 10)]
              [[1 / 63, 1 / 63], [1 / 63, 1 / 63]]
              (get_optimization_objective MODERATE) (case Some [] of None \<Rightarrow> [] | Some cs \<Rightarrow> cs) =
            ([], Inr [1 / 4, 3 / 4])"
    by (simp add: steady_weights)
  show ?thesis
    using optimize_stages[OF steady_fetch s2 s3 s4 s5 steady_prices_now steady_allocations_loop
        steady_suggestions steady_score]
    by (simp add: steady_market_sel steady_volatility steady_return risk_free_rate_def
        steady_response_def)
qed

section \<open>Filling and fetching\<close>









section \<open>Sums, the Herfindahl index and the clamp\<close>








section \<open>Properties of \<open>_optimize_weights\<close>\<close>

text \<open>
  C1 (amended). For a universe of at least one symbol and every objective,
  \<open>_optimize_weights\<close> returns a vector: the solver's vector, unchanged, when the solver
  reports success, and the equal-weight vector otherwise (EQUAL_WEIGHT objective, no
  convergence, exception). The equal-weight vector has sum 1 and entries in [0, 1]. A
  converged vector is not checked again: the returned weights satisfy the sum and bounds
  invariant whenever the solver's converged vector does.
\<close>

theorem optimize_weights_returns_solver_vector_or_equal_weights:
  assumes "mean_returns \<noteq> []"
  shows "snd (optimize_weights e mean_returns cov_matrix objective constraints) =
           Inr (case solver_call e mean_returns cov_matrix objective constraints of
                  Some (Inr result) \<Rightarrow>
                    if success result then result_x result
                    else equal_weights (length mean_returns)
                | _ \<Rightarrow> equal_weights (length mean_returns))
         \<and> weights_valid (equal_weights (length mean_returns))
         \<and> ((\<forall>result. solver_call e mean_returns cov_matrix objective constraints = Some (Inr result)
                 \<and> success result \<longrightarrow> weights_valid (result_x result))
              \<longrightarrow> (\<exists>w. snd (optimize_weights e mean_returns cov_matrix objective constraints) = Inr w
                       \<and> weights_valid w))"
proof -
  let ?call = "solver_call e mean_returns cov_matrix objective constraints"
  have v: "weights_valid (equal_weights (length mean_returns))"
    using assms by (simp add: equal_weights_valid)
  show ?thesis
  proof (cases ?call)
    case None
    then show ?thesis using assms v by (simp add: optimize_weights_no_call)
  next
    case (Some outcome)
    then show ?thesis using assms v
      by (cases outcome) (simp_all add: optimize_weights_solve)
  qed
qed

theorem optimize_weights_returns_solver_vector_or_equal_weights_witness:
  "two_assets \<noteq> []
   \<and> solver_call steady_market two_assets unit_cov MAX_SHARPE [] =
       Some (Inr \<lparr>success = True, result_x = [1 / 4, 3 / 4]\<rparr>)
   \<and> weights_valid [1 / 4, 3 / 4]
   \<and> snd (optimize_weights steady_market two_assets unit_cov MAX_SHARPE []) = Inr [1 / 4, 3 / 4]
   \<and> weights_valid (equal_weights (length two_assets))"
proof -
  have ne: "two_assets \<noteq> []" by (simp add: two_assets_def)
  have call: "solver_call steady_market two_assets unit_cov MAX_SHARPE [] =
                Some (Inr \<lparr>success = True, result_x = [1 / 4, 3 / 4]\<rparr>)"
    by (simp add: solver_call_def steady_market_sel)
  have valid: "weights_valid [1 / 4, 3 / 4]" by (simp add: weights_valid_def)
  note t = optimize_weights_returns_solver_vector_or_equal_weights
             [OF ne, of steady_market unit_cov MAX_SHARPE "[]"]
  from t have "snd (optimize_weights steady_market two_assets unit_cov MAX_SHARPE []) =
                 Inr [1 / 4, 3 / 4]"
    by (simp add: call)
  moreover from t have "weights_valid (equal_weights (length two_assets))" by blast
  ultimately show ?thesis using ne call valid by blast
qed

text \<open>
  C1 as stated fails: a solver that reports success with the vector (2, -1/2), whose sum is
  3/2 and whose entries leave [0, 1], has that vector returned as it is, not replaced by the
  fallback.
\<close>

theorem converged_vector_is_not_validated:
  "snd (optimize_weights
          (market [0, 0] unit_cov (Inr \<lparr>success = True, result_x = [2, - 1 / 2]\<rparr>))
          two_assets unit_cov MAX_SHARPE []) = Inr [2, - 1 / 2]
   \<and> \<not> weights_valid [2, - 1 / 2]"
  by (simp add: optimize_weights_def two_assets_def market_def flat_market_def
      build_constraints_def weights_valid_def)



text \<open>
  C9. With the EQUAL_WEIGHT objective and a universe of N symbols (N at least 1, as 1/N
  requires), \<open>_optimize_weights\<close> returns the vector with every entry 1/N. No solve takes
  place: no call of \<open>minimize\<close> is made, and the outcome is the same under every
  environment, whatever its solver would do.
\<close>

theorem equal_weight_objective_no_solve:
  assumes "mean_returns \<noteq> []"
  shows "snd (optimize_weights e mean_returns cov_matrix EQUAL_WEIGHT constraints) =
           Inr (replicate (length mean_returns) (1 / real (length mean_returns)))
         \<and> solver_call e mean_returns cov_matrix EQUAL_WEIGHT constraints = None
         \<and> optimize_weights e' mean_returns cov_matrix EQUAL_WEIGHT constraints =
             optimize_weights e mean_returns cov_matrix EQUAL_WEIGHT constraints"
  using assms by (simp add: optimize_weights_equal equal_weights_def solver_call_def)

theorem equal_weight_objective_no_solve_witness:
  "two_assets \<noteq> [] \<and>
   snd (optimize_weights flat_market two_assets unit_cov EQUAL_WEIGHT [MaxWeight ''AAA'' (1 / 10)]) =
     Inr [1 / 2, 1 / 2] \<and>
   optimize_weights (market [0, 0] unit_cov (Inl (ValueError ''solver called''))) two_assets unit_cov
       EQUAL_WEIGHT [MaxWeight ''AAA'' (1 / 10)] =
     optimize_weights flat_market two_assets unit_cov EQUAL_WEIGHT [MaxWeight ''AAA'' (1 / 10)]"
  using equal_weight_objective_no_solve
          [of two_assets flat_market unit_cov "[MaxWeight ''AAA'' (1 / 10)]"
              "market [0, 0] unit_cov (Inl (ValueError ''solver called''))"]
  by (simp add: two_assets_def numeral_2_eq_2)

text \<open>
  C4 (amended). For every constraint list, the constraint set handed to the solver is: first
  the equality \<open>\<Sigma>w - 1 = 0\<close>; then, in the order of the list, one inequality
  \<open>value - w[i] \<ge> 0\<close> for each max_weight constraint and one inequality
  \<open>w[i] - value \<ge> 0\<close> for each min_weight constraint that names a symbol of the
  universe, \<open>i\<close> being the position of that symbol. Nothing else is in the set: a
  sector_limit constraint (like any other type) adds no inequality.
\<close>

theorem constraint_set_contents:
  "map (\<lambda>c. (sc_type c, sc_fun c x)) (fst (build_constraints index constraints)) =
     solver_ready index constraints x
   \<and> (\<forall>c \<in> set constraints. weight_constraint c \<and> in_universe index c \<longrightarrow>
        (\<exists>i < length index. get_loc index (the (c_symbol c)) = Some i \<and> index ! i = the (c_symbol c)))"
proof
  show "map (\<lambda>c. (sc_type c, sc_fun c x)) (fst (build_constraints index constraints)) =
     solver_ready index constraints x"
    by (simp add: build_constraints_eq solver_ready_def sum_to_one_def built_eval comp_def)
next
  show "\<forall>c \<in> set constraints. weight_constraint c \<and> in_universe index c \<longrightarrow>
        (\<exists>i < length index. get_loc index (the (c_symbol c)) = Some i \<and> index ! i = the (c_symbol c))"
  proof (intro ballI impI)
    fix c assume "c \<in> set constraints" and h: "weight_constraint c \<and> in_universe index c"
    then obtain i where "get_loc index (the (c_symbol c)) = Some i"
      using get_loc_None[of index "the (c_symbol c)"] by (auto simp: in_universe_def)
    then show "\<exists>i < length index. get_loc index (the (c_symbol c)) = Some i \<and> index ! i = the (c_symbol c)"
      using get_loc_Some by blast
  qed
qed

theorem constraint_set_contents_witness:
  "map (\<lambda>c. (sc_type c, sc_fun c [1 / 4, 3 / 4]))
     (fst (build_constraints [''AAA'', ''BBB'']
        [MaxWeight ''BBB'' (8 / 10), SectorLimit, MinWeight ''AAA'' (1 / 10)]))
   = [(''eq'', 0), (''ineq'', 1 / 20), (''ineq'', 3 / 20)]
   \<and> weight_constraint (MaxWeight ''BBB'' (8 / 10))
   \<and> in_universe [''AAA'', ''BBB''] (MaxWeight ''BBB'' (8 / 10))
   \<and> get_loc [''AAA'', ''BBB''] ''BBB'' = Some 1"
  using constraint_set_contents
          [of "[1 / 4, 3 / 4]" "[''AAA'', ''BBB'']"
              "[MaxWeight ''BBB'' (8 / 10), SectorLimit, MinWeight ''AAA'' (1 / 10)]"]
  by (simp add: solver_ready_def weight_inequality_def weight_constraint_def in_universe_def
      MaxWeight_def MinWeight_def SectorLimit_def)

text \<open>
  C4 as stated fails: a sector_limit constraint leaves the constraint set with the equality
  alone, and nothing is logged.
\<close>

theorem sector_limit_adds_no_inequality:
  "build_constraints [''AAA'', ''BBB''] [SectorLimit] = ([sum_to_one], [])"
  by (simp add: build_constraints_def add_custom_constraint_def SectorLimit_def)



section \<open>Properties of \<open>_fetch_portfolio_data\<close>\<close>




section \<open>Properties of the risk metrics\<close>






section \<open>Properties of \<open>_calculate_diversification_score\<close>\<close>




section \<open>Properties of the endpoint\<close>

text \<open>
  C10. Two requests that agree on the symbols, the risk tolerance, the amount and the
  constraints get the same answer from \<open>optimize_portfolio\<close>, whatever their
  \<open>objective\<close> fields are: the endpoint does not pass the objective on, and the optimizer
  derives its objective from the risk tolerance alone (conservative to MIN_RISK, aggressive
  to MAX_RETURN, otherwise MAX_SHARPE), never EQUAL_WEIGHT.
\<close>

theorem request_objective_is_ignored:
  assumes "req_symbols r2 = req_symbols r1"
    and "req_risk_tolerance r2 = req_risk_tolerance r1"
    and "req_investment_amount r2 = req_investment_amount r1"
    and "req_constraints r2 = req_constraints r1"
  shows "optimize_portfolio e r2 current_user = optimize_portfolio e r1 current_user
         \<and> get_optimization_objective (req_risk_tolerance r1) =
             (case req_risk_tolerance r1 of
                CONSERVATIVE \<Rightarrow> MIN_RISK | AGGRESSIVE \<Rightarrow> MAX_RETURN | MODERATE \<Rightarrow> MAX_SHARPE)
         \<and> get_optimization_objective (req_risk_tolerance r1) \<noteq> EQUAL_WEIGHT"
  using assms
  by (cases "req_risk_tolerance r1") (simp_all add: optimize_portfolio_def)

theorem request_objective_is_ignored_witness:
  "req_symbols (sample_request EQUAL_WEIGHT) = req_symbols (sample_request MAX_RETURN)
   \<and> req_objective (sample_request EQUAL_WEIGHT) \<noteq> req_objective (sample_request MAX_RETURN)
   \<and> optimize_portfolio steady_market (sample_request EQUAL_WEIGHT) Map.empty =
       optimize_portfolio steady_market (sample_request MAX_RETURN) Map.empty
   \<and> snd (optimize_portfolio steady_market (sample_request EQUAL_WEIGHT) Map.empty) =
       Inr steady_response
   \<and> map recommended_weight (r_allocations steady_response) = [1 / 4, 3 / 4]"
  using request_objective_is_ignored
          [of "sample_request EQUAL_WEIGHT" "sample_request MAX_RETURN" steady_market Map.empty]
  by (simp add: sample_request_def optimize_portfolio_def steady_optimize steady_response_def
      steady_allocations_def)

end
